theory Spec2Isabelle
  imports Main "HOL-Library.Sublist"
begin

section \<open>Data model (src/types.ts)\<close>

text \<open>
  Interfaces are records, string-literal unions and the enum are datatypes, an optional
  property (\<^verbatim>\<open>k?: T\<close>) or a nullable one (\<^verbatim>\<open>T | null\<close>) is an option. Field names are the
  source's, prefixed where two interfaces share a name (\<^verbatim>\<open>id\<close>, \<^verbatim>\<open>name\<close>, \<^verbatim>\<open>url\<close>,
  \<^verbatim>\<open>timestamp\<close>, ...). JavaScript numbers that only ever hold integers here are \<open>int\<close>.
\<close>

datatype WorkflowStep =
  UPLOAD | RECIPE | ANALYSIS | RESEARCH | EDITOR | GENERATION | CODING | PREVIEW

datatype ForgeRecipe =
  Default | NeoBrutalism | Glassmorphism | SaasMinimal | CyberpunkDark

datatype DeployStatus = Idle | Authorizing | Uploading | Ready | DeployError

datatype Platform = Netlify | Github

record DeploymentState =
  status :: DeployStatus
  deploy_url :: "string option"
  siteId :: "string option"
  repoUrl :: "string option"
  repoName :: "string option"
  prUrl :: "string option"
  platform :: "Platform option"
  deploy_timestamp :: "int option"

record AnalysisResult =
  pageType :: string
  industry :: string
  intent :: string
  targetAudience :: string
  colorPalette :: "string list"
  layoutStructure :: "string list"
  uxPatterns :: "string list"
  isEcommerce :: bool

datatype PayMethod = Upi | Qr

record PaymentConfig =
  pay_method :: PayMethod
  upiId :: "string option"
  qrImage :: "string option"

record ProductItem =
  product_id :: string
  product_name :: string
  price :: string
  product_description :: "string option"
  product_image :: "string option"

record DesignSystem =
  primaryColor :: string
  fontStyle :: string
  borderRadius :: string

record Source =
  title :: string
  uri :: string

record MarketContent =
  aboutUs :: string
  services :: "string list"
  valueProposition :: string

text \<open>
  A property of a run-time object: the key is missing, or it is there and holds
  \<^verbatim>\<open>undefined\<close>, or it holds a value. Reading the property gives \<^verbatim>\<open>undefined\<close> in the
  first two cases; an object spread copies the key in the last two.
\<close>

datatype 'a member = Absent | Undefined | Value 'a

fun valueOf :: "'a member \<Rightarrow> 'a option" where
  "valueOf (Value v) = Some v"
| "valueOf Undefined = None"
| "valueOf Absent = None"

text \<open>
  \<^verbatim>\<open>ResearchResult\<close> as the object it is at run time: the eight top-level keys of the
  interface, each a property. \<^verbatim>\<open>Partial<ResearchResult>\<close> (the refinery's overrides) is an
  object of the same shape in which any key may be missing, and the spread
  \<^verbatim>\<open>{ ...state.research!, ...overrides }\<close> that \<^verbatim>\<open>runAssetPhase\<close> receives is again such an
  object, whatever its declared type says.
\<close>

record ResearchResult =
  trends :: "string list member"
  competitors :: "string list member"
  rr_keywords :: "string list member"
  recommendedDesignSystem :: "DesignSystem member"
  sources :: "Source list member"
  marketContent :: "MarketContent member"
  paymentConfig :: "PaymentConfig member"
  products :: "ProductItem list member"

datatype AssetType = Hero | Feature | Product | Abstract | Icon | Car

record GeneratedAsset =
  asset_id :: string
  asset_type :: AssetType
  asset_url :: string
  asset_prompt :: string

record WebPage =
  page_name :: string
  page_filename :: string
  page_code :: string

record GeneratedSite =
  site_id :: string
  site_name :: string
  pages :: "WebPage list"
  activePageIndex :: int
  site_timestamp :: int
  assets :: "GeneratedAsset list"
  site_deployment :: "DeploymentState option"
  site_analysis :: "AnalysisResult option"
  recipe :: "ForgeRecipe option"

text \<open>
  \<^verbatim>\<open>uploadedImages\<close> is declared \<^verbatim>\<open>string[]\<close>; its elements are what
  \<^verbatim>\<open>reader.result.split(',')[1]\<close> gave, which is \<^verbatim>\<open>undefined\<close> (\<open>None\<close>) for a result
  without a comma.
\<close>

record WorkflowState =
  step :: WorkflowStep
  uploadedImages :: "string option list"
  analysis :: "AnalysisResult option"
  research :: "ResearchResult option"
  researchOverrides :: "ResearchResult option"
  generatedAssets :: "GeneratedAsset list"
  site :: "GeneratedSite option"
  previousSite :: "GeneratedSite option"
  isProcessing :: bool
  deployment :: "DeploymentState option"
  error :: "string option"
  logs :: "string list"
  gallery :: "GeneratedSite list"
  selectedRecipe :: ForgeRecipe

text \<open>
  Modelled from the spec: \<^verbatim>\<open>INITIAL_STATE\<close> is cut off in src/types.ts after the key
  \<^verbatim>\<open>researchOverrides\<close>; the four fields before the cut are the source's, the rest are
  the defaults the spec names ("restored gallery from durable storage, everything else
  default": no site, not processing, no error, empty log, empty gallery).
\<close>

definition INITIAL_STATE :: WorkflowState where
  "INITIAL_STATE = \<lparr>
     step = UPLOAD,
     uploadedImages = [],
     analysis = None,
     research = None,
     researchOverrides = None,
     generatedAssets = [],
     site = None,
     previousSite = None,
     isProcessing = False,
     deployment = None,
     error = None,
     logs = [],
     gallery = [],
     selectedRecipe = Default \<rparr>"

section \<open>JavaScript strings\<close>

text \<open>
  \<^verbatim>\<open>s.split(sep)\<close> for a string separator: the pieces between the occurrences of \<open>sep\<close>
  found scanning left to right, each search resuming after the occurrence before it. The
  empty separator cuts between every two characters, and the empty string then has no
  piece at all. \<open>splitOn\<close> is the scan: \<open>acc\<close> is the piece read so far.
\<close>

function splitOn :: "'a list \<Rightarrow> 'a list \<Rightarrow> 'a list \<Rightarrow> 'a list list" where
  "splitOn sep acc [] = [acc]"
| "splitOn sep acc (c # cs) =
     (if sep \<noteq> [] \<and> prefix sep (c # cs)
      then acc # splitOn sep [] (drop (length sep) (c # cs))
      else splitOn sep (acc @ [c]) cs)"
  by pat_completeness auto
termination
  by (relation "measure (\<lambda>(sep, acc, s). length s)") auto

definition js_split :: "'a list \<Rightarrow> 'a list \<Rightarrow> 'a list list" where
  "js_split sep s = (if sep = [] then map (\<lambda>c. [c]) s else splitOn sep [] s)"

text \<open>\<^verbatim>\<open>pieces.join(sep)\<close>.\<close>

fun js_join :: "'a list \<Rightarrow> 'a list list \<Rightarrow> 'a list" where
  "js_join sep [] = []"
| "js_join sep [p] = p"
| "js_join sep (p # q # ps) = p @ sep @ js_join sep (q # ps)"

text \<open>\<^verbatim>\<open>array[i]\<close>: \<^verbatim>\<open>undefined\<close> past the end.\<close>

fun js_index :: "'a list \<Rightarrow> nat \<Rightarrow> 'a option" where
  "js_index [] i = None"
| "js_index (x # xs) 0 = Some x"
| "js_index (x # xs) (Suc i) = js_index xs i"

text \<open>A string in a condition: the empty string and \<^verbatim>\<open>undefined\<close> are falsy.\<close>

fun truthy :: "string option \<Rightarrow> bool" where
  "truthy None = False"
| "truthy (Some s) = (s \<noteq> [])"

text \<open>\<^verbatim>\<open>a || b\<close> on strings.\<close>

fun orElse :: "string option \<Rightarrow> string \<Rightarrow> string" where
  "orElse None d = d"
| "orElse (Some s) d = (if s = [] then d else s)"

text \<open>A value inside a template literal: \<^verbatim>\<open>undefined\<close> prints as the word.\<close>

fun interpolate :: "string option \<Rightarrow> string" where
  "interpolate None = ''undefined''"
| "interpolate (Some s) = s"

text \<open>A non-negative integer inside a template literal: its decimal digits.\<close>

definition digit :: "nat \<Rightarrow> char" where
  "digit d = ''0123456789'' ! d"

function showNat :: "nat \<Rightarrow> string" where
  "showNat n = (if n < 10 then [digit n] else showNat (n div 10) @ [digit (n mod 10)])"
  by pat_completeness auto
termination
  by (relation "measure id") auto

declare showNat.simps [simp del]

fun typeName :: "AssetType \<Rightarrow> string" where
  "typeName Hero = ''hero''"
| "typeName Feature = ''feature''"
| "typeName Product = ''product''"
| "typeName Abstract = ''abstract''"
| "typeName Icon = ''icon''"
| "typeName Car = ''car''"

section \<open>The world outside the component\<close>

text \<open>
  A rejection or a thrown value is an object whose \<^verbatim>\<open>message\<close> is a string or is missing.
  \<open>typeError\<close> is what reading a property of \<^verbatim>\<open>null\<close> or \<^verbatim>\<open>undefined\<close> throws (the
  wording of its message is the engine's, and nothing in App.tsx reads it).
\<close>

datatype JsError = Thrown (message: "string option")

definition typeError :: JsError where
  "typeError = Thrown (Some ''TypeError'')"

text \<open>How an \<^verbatim>\<open>async\<close> function ends: its promise resolves, rejects, or never settles.\<close>

datatype Completion = Resolved | Rejected JsError | Pending

text \<open>
  A \<^verbatim>\<open>File\<close> as \<^verbatim>\<open>FileReader.readAsDataURL\<close> sees it: at \<^verbatim>\<open>loadend\<close> the reader's
  \<^verbatim>\<open>result\<close> is the data URL, or \<^verbatim>\<open>null\<close> when the read failed.
\<close>

datatype FileRead = Loaded string | ReadFailed

text \<open>
  Everything App.tsx calls and does not define. The four services of
  \<^verbatim>\<open>./services/gemini\<close> answer with a value (\<open>Inr\<close>) or reject (\<open>Inl\<close>);
  \<^verbatim>\<open>generateNanoImage\<close> is called once per slot, so its answer may depend on the slot's
  index. \<open>clock k\<close> is \<^verbatim>\<open>new Date().toLocaleTimeString()\<close> as read by the \<^verbatim>\<open>addLog\<close>
  call that writes log entry \<open>k\<close>; \<open>randomId k\<close> is
  \<^verbatim>\<open>Math.random().toString(36).substr(2, 9)\<close> at the \<open>k\<close>-th draw of a run of
  \<^verbatim>\<open>runAssetPhase\<close>; \<open>dateNow\<close> is \<^verbatim>\<open>Date.now()\<close>.
\<close>

record Env =
  clock :: "nat \<Rightarrow> string"
  randomId :: "nat \<Rightarrow> string"
  dateNow :: int
  analyzeScreenshot :: "string option list \<Rightarrow> JsError + AnalysisResult"
  conductResearch :: "AnalysisResult \<Rightarrow> JsError + ResearchResult"
  generateNanoImage :: "nat \<Rightarrow> string \<Rightarrow> AssetType \<Rightarrow> JsError + string"
  generateSiteCode ::
    "AnalysisResult \<Rightarrow> ResearchResult \<Rightarrow> string list \<Rightarrow> JsError + WebPage list"

section \<open>The handlers of src/App.tsx\<close>

text \<open>
  React state: every \<^verbatim>\<open>setState(prev => ...)\<close> is a function from the state before to
  the state after, and the updates of a handler apply in the order they were queued. A
  handler is therefore the composition of its updaters on the state \<open>prev\<close> it starts from.
  Where a handler reads the variable \<^verbatim>\<open>state\<close> instead (the state of the render that
  created the closure), the model takes that state as the separate argument \<open>rendered\<close>.
\<close>

definition addLog :: "Env \<Rightarrow> string \<Rightarrow> WorkflowState \<Rightarrow> WorkflowState" where
  "addLog env msg prev =
     prev\<lparr>logs := logs prev @ [''['' @ clock env (length (logs prev)) @ ''] '' @ msg]\<rparr>"

text \<open>
  The promise of one file (lines 72-76). The executor takes \<^verbatim>\<open>resolve\<close> only, and
  \<^verbatim>\<open>onloadend\<close> calls \<^verbatim>\<open>(reader.result as string).split(',')[1]\<close>: for a failed read
  \<^verbatim>\<open>reader.result\<close> is \<^verbatim>\<open>null\<close>, the callback throws inside the event handler, and the
  promise never settles (\<open>None\<close>). Otherwise it resolves with the second piece.
\<close>

fun readPromise :: "FileRead \<Rightarrow> string option option" where
  "readPromise (Loaded result) = Some (js_index (js_split '','' result) 1)"
| "readPromise ReadFailed = None"

text \<open>\<^verbatim>\<open>Promise.all\<close> over promises that cannot reject: all the values, or never.\<close>

fun promiseAll :: "'a option list \<Rightarrow> 'a list option" where
  "promiseAll [] = Some []"
| "promiseAll (p # ps) =
     (case p of
        None \<Rightarrow> None
      | Some v \<Rightarrow> (case promiseAll ps of None \<Rightarrow> None | Some vs \<Rightarrow> Some (v # vs)))"

definition runAnalysisPhase ::
    "Env \<Rightarrow> string option list \<Rightarrow> WorkflowState \<Rightarrow> Completion \<times> WorkflowState" where
  "runAnalysisPhase env base64Images prev =
     (let s1 = addLog env ''Deconstructing visual hierarchy...'' (prev\<lparr>step := ANALYSIS\<rparr>) in
      case analyzeScreenshot env base64Images of
        Inl err \<Rightarrow> (Rejected err, s1)
      | Inr a \<Rightarrow>
          (let s2 = addLog env ''Mining sector intelligence & trending design patterns...''
                      (s1\<lparr>analysis := Some a\<rparr>\<lparr>step := RESEARCH\<rparr>) in
           case conductResearch env a of
             Inl err \<Rightarrow> (Rejected err, s2)
           | Inr r \<Rightarrow>
               (Resolved,
                addLog env ''Harvest complete. Ready for catalog setup.''
                  (s2\<lparr>research := Some r, step := EDITOR, isProcessing := False\<rparr>))))"

definition handleFileUpload ::
    "Env \<Rightarrow> FileRead list \<Rightarrow> WorkflowState \<Rightarrow> Completion \<times> WorkflowState" where
  "handleFileUpload env files prev =
     (if length files = 0 then (Resolved, prev)
      else
        (let s1 = addLog env ''Initializing Neural Forge kernel...''
                    (prev\<lparr>isProcessing := True, step := UPLOAD, error := None, logs := []\<rparr>) in
         case promiseAll (map readPromise files) of
           None \<Rightarrow> (Pending, s1)
         | Some base64Images \<Rightarrow>
             (let s2 = addLog env
                         (''Blueprints received: '' @ showNat (length files) @ '' design files.'')
                         (s1\<lparr>uploadedImages := base64Images\<rparr>) in
              case runAnalysisPhase env base64Images s2 of
                (Rejected err, s3) \<Rightarrow>
                  (Resolved,
                   addLog env (''[ERROR] '' @ interpolate (message err))
                     (s3\<lparr>isProcessing := False,
                        error := Some (orElse (message err)
                                        ''Forge sequence failed to initialize.'')\<rparr>))
              | (ended, s3) \<Rightarrow> (ended, s3))))"

text \<open>The object spread \<^verbatim>\<open>{ ...base, ...overrides }\<close>, key by key; spreading \<^verbatim>\<open>null\<close>
  copies nothing.\<close>

fun over :: "'a member \<Rightarrow> 'a member \<Rightarrow> 'a member" where
  "over b Absent = b"
| "over b Undefined = Undefined"
| "over b (Value v) = Value v"

definition spread :: "ResearchResult option \<Rightarrow> ResearchResult \<Rightarrow> ResearchResult" where
  "spread base overrides =
     (case base of
        None \<Rightarrow> overrides
      | Some b \<Rightarrow>
          \<lparr> trends = over (trends b) (trends overrides),
            competitors = over (competitors b) (competitors overrides),
            rr_keywords = over (rr_keywords b) (rr_keywords overrides),
            recommendedDesignSystem =
              over (recommendedDesignSystem b) (recommendedDesignSystem overrides),
            sources = over (sources b) (sources overrides),
            marketContent = over (marketContent b) (marketContent overrides),
            paymentConfig = over (paymentConfig b) (paymentConfig overrides),
            products = over (products b) (products overrides) \<rparr>)"

text \<open>The entries of \<^verbatim>\<open>assetPrompts\<close> (lines 113-134).\<close>

record AssetPrompt =
  ap_type :: AssetType
  ap_prompt :: string
  existingUrl :: "string option"

definition productPrompt :: "ProductItem \<Rightarrow> AssetPrompt" where
  "productPrompt product =
     (if truthy (product_image product)
      then \<lparr> ap_type = Product,
             ap_prompt = ''User uploaded product: '' @ product_name product,
             existingUrl = product_image product \<rparr>
      else \<lparr> ap_type = Product,
             ap_prompt = ''High-end commercial photography of '' @ product_name product
                         @ ''. 8K, Clean background.'',
             existingUrl = None \<rparr>)"

definition assetPrompts ::
    "AnalysisResult \<Rightarrow> MarketContent \<Rightarrow> ResearchResult \<Rightarrow> AssetPrompt list" where
  "assetPrompts a mc finalResearch =
     [ \<lparr> ap_type = Hero,
         ap_prompt = ''High-end minimalist hero visual for '' @ industry a @ ''. Theme: ''
                     @ valueProposition mc,
         existingUrl = None \<rparr>,
       \<lparr> ap_type = Feature,
         ap_prompt = ''Abstract high-tech professional background for '' @ industry a,
         existingUrl = None \<rparr> ]
     @ (case valueOf (products finalResearch) of
          None \<Rightarrow> []
        | Some ps \<Rightarrow> if length ps > 0 then map productPrompt ps else [])"

definition PLACEHOLDER :: string where
  "PLACEHOLDER =
     ''https://images.unsplash.com/photo-1618005182384-a83a8bd57fbe?q=80&w=2564&auto=format&fit=crop''"

text \<open>
  One turn of the loop of lines 137-152, for the slot \<open>req\<close> at index \<open>i\<close>: the asset it
  pushes and the state with its log lines. (The spread \<^verbatim>\<open>...req\<close> also copies
  \<^verbatim>\<open>existingUrl\<close> into the asset; \<^verbatim>\<open>GeneratedAsset\<close> does not declare it and nothing
  reads it.)
\<close>

definition forgeSlot ::
    "Env \<Rightarrow> nat \<Rightarrow> AssetPrompt \<Rightarrow> WorkflowState \<Rightarrow> GeneratedAsset \<times> WorkflowState" where
  "forgeSlot env i req s =
     (if truthy (existingUrl req)
      then (\<lparr> asset_id = randomId env i, asset_type = ap_type req,
              asset_url = interpolate (existingUrl req), asset_prompt = ap_prompt req \<rparr>,
            addLog env (''Using user-uploaded artifact for '' @ typeName (ap_type req) @ ''...'') s)
      else
        (let s1 = addLog env (''Forging '' @ typeName (ap_type req) @ '' artifact: ''
                              @ take 30 (ap_prompt req) @ ''...'') s in
         case generateNanoImage env i (ap_prompt req) (ap_type req) of
           Inr url \<Rightarrow>
             (\<lparr> asset_id = randomId env i, asset_type = ap_type req,
                asset_url = url, asset_prompt = ap_prompt req \<rparr>, s1)
         | Inl e \<Rightarrow>
             (\<lparr> asset_id = randomId env i, asset_type = ap_type req,
                asset_url = PLACEHOLDER, asset_prompt = ap_prompt req \<rparr>,
              addLog env (''[WARN] Generation for '' @ typeName (ap_type req)
                          @ '' failed. Using placeholder.'') s1)))"

text \<open>The loop: \<open>built\<close> is the array \<^verbatim>\<open>assets\<close> so far, so the slot's index is its length.\<close>

fun forgeAssets ::
    "Env \<Rightarrow> AssetPrompt list \<Rightarrow> GeneratedAsset list \<Rightarrow> WorkflowState
       \<Rightarrow> GeneratedAsset list \<times> WorkflowState" where
  "forgeAssets env [] built s = (built, s)"
| "forgeAssets env (req # reqs) built s =
     (case forgeSlot env (length built) req s of
        (a, s') \<Rightarrow> forgeAssets env reqs (built @ [a]) s')"

definition newSite ::
    "Env \<Rightarrow> AnalysisResult \<Rightarrow> MarketContent \<Rightarrow> GeneratedAsset list \<Rightarrow> WebPage list
       \<Rightarrow> GeneratedSite" where
  "newSite env a mc built pgs =
     \<lparr> site_id = randomId env (length built),
       site_name = orElse (Some (valueProposition mc)) ''AI Generated Store'',
       pages = pgs,
       activePageIndex = 0,
       site_timestamp = dateNow env,
       assets = built,
       site_deployment = None,
       site_analysis = Some a,
       recipe = None \<rparr>"

text \<open>
  \<^verbatim>\<open>runAssetPhase\<close> (lines 110-177). \<^verbatim>\<open>state.analysis!\<close> is read from the render's state;
  building the hero prompt reads \<^verbatim>\<open>analysis.industry\<close> and
  \<^verbatim>\<open>finalResearch.marketContent.valueProposition\<close>, which throw before anything else
  happens when \<^verbatim>\<open>analysis\<close> is \<^verbatim>\<open>null\<close> or \<^verbatim>\<open>marketContent\<close> is not there. Nothing
  catches a rejection of \<^verbatim>\<open>generateSiteCode\<close>.
\<close>

definition runAssetPhase ::
    "Env \<Rightarrow> WorkflowState \<Rightarrow> ResearchResult \<Rightarrow> WorkflowState \<Rightarrow> Completion \<times> WorkflowState"
  where
  "runAssetPhase env rendered finalResearch prev =
     (case analysis rendered of
        None \<Rightarrow> (Rejected typeError, prev)
      | Some a \<Rightarrow>
          (case valueOf (marketContent finalResearch) of
             None \<Rightarrow> (Rejected typeError, prev)
           | Some mc \<Rightarrow>
               (case forgeAssets env (assetPrompts a mc finalResearch) [] prev of
                  (built, s1) \<Rightarrow>
                    (let s2 = addLog env ''Architecting multi-page source via Gemini Forge...''
                                (s1\<lparr>generatedAssets := built\<rparr>\<lparr>step := CODING\<rparr>) in
                     case generateSiteCode env a finalResearch (map asset_url built) of
                       Inl err \<Rightarrow> (Rejected err, s2)
                     | Inr pgs \<Rightarrow>
                         (Resolved,
                          addLog env ''Foundry sequence complete. Store is live for testing.''
                            (s2\<lparr>site := Some (newSite env a mc built pgs),
                               gallery := take 20 (newSite env a mc built pgs # gallery s2),
                               step := PREVIEW,
                               isProcessing := False\<rparr>))))))"

text \<open>
  \<^verbatim>\<open>handleRefineryConfirm\<close> (lines 104-108). It starts \<^verbatim>\<open>runAssetPhase\<close> and drops the
  promise; the result here is how that promise ends and the state the run leaves.
\<close>

definition handleRefineryConfirm ::
    "Env \<Rightarrow> WorkflowState \<Rightarrow> ResearchResult \<Rightarrow> WorkflowState \<Rightarrow> Completion \<times> WorkflowState"
  where
  "handleRefineryConfirm env rendered overrides prev =
     runAssetPhase env rendered (spread (research rendered) overrides)
       (addLog env ''Refinery settings locked. Casting production assets...''
          (prev\<lparr>researchOverrides := Some overrides, step := GENERATION,
                 isProcessing := True\<rparr>))"

text \<open>\<^verbatim>\<open>handleDeploymentComplete\<close> (lines 179-193): the updater, then the handler.\<close>

definition deploymentUpdate :: "DeploymentState \<Rightarrow> WorkflowState \<Rightarrow> WorkflowState" where
  "deploymentUpdate dep prev =
     (case site prev of
        None \<Rightarrow> prev
      | Some st \<Rightarrow>
          (let updatedSite = st\<lparr>site_deployment := Some (dep\<lparr>siteId := siteId dep\<rparr>)\<rparr>;
               updatedGallery =
                 map (\<lambda>s. if site_id s = site_id updatedSite then updatedSite else s)
                   (gallery prev)
           in prev\<lparr>site := Some updatedSite, gallery := updatedGallery\<rparr>))"

definition handleDeploymentComplete ::
    "Env \<Rightarrow> DeploymentState \<Rightarrow> WorkflowState \<Rightarrow> WorkflowState" where
  "handleDeploymentComplete env dep prev =
     addLog env (''DEPLOYMENT SYNC VERIFIED: '' @ interpolate (deploy_url dep))
       (deploymentUpdate dep prev)"

text \<open>\<^verbatim>\<open>handleAssetUpdated\<close> (lines 195-216): the updater, then the handler.\<close>

definition assetUpdate :: "string \<Rightarrow> string \<Rightarrow> WorkflowState \<Rightarrow> WorkflowState" where
  "assetUpdate assetId newUrl prev =
     (case site prev of
        None \<Rightarrow> prev
      | Some st \<Rightarrow>
          (let updatedAssets =
                 map (\<lambda>a. if asset_id a = assetId then a\<lparr>asset_url := newUrl\<rparr> else a)
                   (generatedAssets prev)
           in case find (\<lambda>a. asset_id a = assetId) (generatedAssets prev) of
                None \<Rightarrow> prev
              | Some oldAsset \<Rightarrow>
                  (let updatedPages =
                         map (\<lambda>page. page\<lparr>page_code :=
                                js_join newUrl (js_split (asset_url oldAsset) (page_code page))\<rparr>)
                           (pages st);
                       updatedSite = st\<lparr>pages := updatedPages, assets := updatedAssets\<rparr>
                   in prev\<lparr>generatedAssets := updatedAssets,
                           site := Some updatedSite,
                           gallery :=
                             map (\<lambda>s. if site_id s = site_id updatedSite then updatedSite else s)
                               (gallery prev)\<rparr>)))"

definition handleAssetUpdated :: "Env \<Rightarrow> string \<Rightarrow> string \<Rightarrow> WorkflowState \<Rightarrow> WorkflowState"
  where
  "handleAssetUpdated env assetId newUrl prev =
     addLog env (''Asset '' @ assetId @ '' hot-swapped.'') (assetUpdate assetId newUrl prev)"

text \<open>\<^verbatim>\<open>handleRemix\<close> (lines 218-229).\<close>

definition handleRemix :: "Env \<Rightarrow> GeneratedSite \<Rightarrow> WorkflowState \<Rightarrow> WorkflowState" where
  "handleRemix env st prev =
     addLog env (''Reloading archive: '' @ site_name st)
       (prev\<lparr>site := Some st,
              step := PREVIEW,
              uploadedImages := [],
              analysis := site_analysis st,
              generatedAssets := assets st,
              isProcessing := False\<rparr>)"

text \<open>The header's \<^verbatim>\<open>onClick\<close> (line 235): \<^verbatim>\<open>setState(INITIAL_STATE)\<close>.\<close>

definition reset :: "WorkflowState \<Rightarrow> WorkflowState" where
  "reset prev = INITIAL_STATE"

text \<open>\<^verbatim>\<open>onPageChange\<close> (line 334).\<close>

definition onPageChange :: "int \<Rightarrow> WorkflowState \<Rightarrow> WorkflowState" where
  "onPageChange index prev =
     prev\<lparr>site := (case site prev of
                      None \<Rightarrow> None
                    | Some st \<Rightarrow> Some (st\<lparr>activePageIndex := index\<rparr>))\<rparr>"

text \<open>The session's first state (lines 47-50): \<open>saved\<close> is the stored gallery, if any.\<close>

definition initialState :: "GeneratedSite list option \<Rightarrow> WorkflowState" where
  "initialState saved =
     INITIAL_STATE\<lparr>gallery := (case saved of None \<Rightarrow> [] | Some g \<Rightarrow> g)\<rparr>"

section \<open>The active site and its gallery entry\<close>

text \<open>
  \<open>mirrored\<close>: every gallery entry that carries the active site's identifier is the
  active site. \<open>sameButPage\<close> compares two sites up to \<^verbatim>\<open>activePageIndex\<close>, and
  \<open>mirroredButPage\<close> is \<open>mirrored\<close> up to that field.
\<close>

definition mirrored :: "WorkflowState \<Rightarrow> bool" where
  "mirrored s =
     (case site s of
        None \<Rightarrow> True
      | Some st \<Rightarrow> list_all (\<lambda>g. site_id g = site_id st \<longrightarrow> g = st) (gallery s))"

definition sameButPage :: "GeneratedSite \<Rightarrow> GeneratedSite \<Rightarrow> bool" where
  "sameButPage x y = (x\<lparr>activePageIndex := activePageIndex y\<rparr> = y)"

definition mirroredButPage :: "WorkflowState \<Rightarrow> bool" where
  "mirroredButPage s =
     (case site s of
        None \<Rightarrow> True
      | Some st \<Rightarrow> list_all (\<lambda>g. site_id g = site_id st \<longrightarrow> sameButPage g st) (gallery s))"

text \<open>
  The states a session can be in, handler by handler. A session starts with nothing
  stored, or with the gallery an earlier state of the application left in storage (the
  effect of lines 56-58 writes \<^verbatim>\<open>state.gallery\<close> after every change). A handler that
  reads \<^verbatim>\<open>state\<close> runs in the render of the state it starts from. Two side conditions
  say what the code leaves to its environment: the identifiers \<^verbatim>\<open>Math.random()\<close> yields
  during a run are not those of sites already in the gallery, and the site handed to
  \<^verbatim>\<open>handleRemix\<close> is one the gallery component was given, an entry of \<^verbatim>\<open>state.gallery\<close>.
\<close>

inductive reachable :: "WorkflowState \<Rightarrow> bool" where
  start: "reachable (initialState None)"
| reload: "reachable s \<Longrightarrow> reachable (initialState (Some (gallery s)))"
| upload: "reachable s \<Longrightarrow> reachable (snd (handleFileUpload env files s))"
| retry: "reachable s \<Longrightarrow> reachable (snd (runAnalysisPhase env (uploadedImages s) s))"
| confirm:
    "reachable s \<Longrightarrow> list_all (\<lambda>g. site_id g \<notin> range (randomId env)) (gallery s) \<Longrightarrow>
     reachable (snd (handleRefineryConfirm env s overrides s))"
| deployed: "reachable s \<Longrightarrow> reachable (handleDeploymentComplete env dep s)"
| swapped: "reachable s \<Longrightarrow> reachable (handleAssetUpdated env assetId newUrl s)"
| remixed: "reachable s \<Longrightarrow> st \<in> set (gallery s) \<Longrightarrow> reachable (handleRemix env st s)"
| paged: "reachable s \<Longrightarrow> reachable (onPageChange index s)"
| cleared: "reachable s \<Longrightarrow> reachable (reset s)"

section \<open>Example data\<close>

definition exampleAnalysis :: AnalysisResult where
  "exampleAnalysis = \<lparr>
     pageType = ''landing'', industry = ''retail'', intent = ''sell'',
     targetAudience = ''shoppers'', colorPalette = [''#000000''],
     layoutStructure = [''hero''], uxPatterns = [''cta''], isEcommerce = True \<rparr>"

definition exampleMarket :: MarketContent where
  "exampleMarket = \<lparr> aboutUs = ''About'', services = [''Delivery''],
                      valueProposition = ''Fast stores'' \<rparr>"

definition exampleProduct :: ProductItem where
  "exampleProduct = \<lparr> product_id = ''p1'', product_name = ''Mug'', price = ''9'',
                       product_description = None, product_image = None \<rparr>"

definition exampleResearch :: ResearchResult where
  "exampleResearch = \<lparr>
     trends = Value [''minimal''],
     competitors = Value [''acme''],
     rr_keywords = Value [''store''],
     recommendedDesignSystem =
       Value \<lparr> primaryColor = ''#ff0000'', fontStyle = ''sans'', borderRadius = ''8px'' \<rparr>,
     sources = Value [],
     marketContent = Value exampleMarket,
     paymentConfig = Absent,
     products = Value [exampleProduct] \<rparr>"

text \<open>Overrides that carry the single key \<^verbatim>\<open>trends\<close>.\<close>

definition exampleOverrides :: ResearchResult where
  "exampleOverrides = \<lparr>
     trends = Value [''bold''], competitors = Absent, rr_keywords = Absent,
     recommendedDesignSystem = Absent, sources = Absent, marketContent = Absent,
     paymentConfig = Absent, products = Absent \<rparr>"

definition exampleEnv :: Env where
  "exampleEnv = \<lparr>
     clock = (\<lambda>k. ''10:00:00''),
     randomId = (\<lambda>k. ''r'' @ showNat k),
     dateNow = 1700000000000,
     analyzeScreenshot = (\<lambda>images. Inr exampleAnalysis),
     conductResearch = (\<lambda>a. Inr exampleResearch),
     generateNanoImage = (\<lambda>i prompt t. Inr (''img'' @ showNat i @ ''.png'')),
     generateSiteCode = (\<lambda>a r urls.
       Inr [\<lparr> page_name = ''Home'', page_filename = ''index.html'',
              page_code = concat (map (\<lambda>u. ''<img src='' @ u @ ''>'') urls) \<rparr>]) \<rparr>"

text \<open>The same world, except that \<^verbatim>\<open>generateSiteCode\<close> rejects.\<close>

definition codegenDownEnv :: Env where
  "codegenDownEnv =
     exampleEnv\<lparr>generateSiteCode := (\<lambda>a r urls. Inl (Thrown (Some ''quota exceeded'')))\<rparr>"

text \<open>The same world, except that \<^verbatim>\<open>generateNanoImage\<close> rejects for slot 1 (the feature
  image).\<close>

definition featureDownEnv :: Env where
  "featureDownEnv =
     exampleEnv\<lparr>generateNanoImage := (\<lambda>i prompt t.
       if i = 1 then Inl (Thrown (Some ''quota exceeded''))
       else Inr (''img'' @ showNat i @ ''.png''))\<rparr>"

text \<open>A state at the refinery: analysis and research are in, nothing is running.\<close>

definition editorState :: WorkflowState where
  "editorState =
     INITIAL_STATE\<lparr>step := EDITOR, uploadedImages := [Some ''AAAA''],
       analysis := Some exampleAnalysis, research := Some exampleResearch\<rparr>"

definition heroAsset :: GeneratedAsset where
  "heroAsset = \<lparr> asset_id = ''a1'', asset_type = Hero, asset_url = ''hero.png'',
                  asset_prompt = ''hero visual'' \<rparr>"

definition exampleSite :: GeneratedSite where
  "exampleSite = \<lparr>
     site_id = ''s1'', site_name = ''Fast stores'',
     pages = [\<lparr> page_name = ''Home'', page_filename = ''index.html'',
                page_code = ''<img src=hero.png><img src=logo.png>'' \<rparr>],
     activePageIndex = 0, site_timestamp = 1700000000000,
     assets = [heroAsset],
     site_deployment = None, site_analysis = Some exampleAnalysis, recipe = None \<rparr>"

text \<open>A state at the preview: the site is active and is the gallery's only entry.\<close>

definition previewState :: WorkflowState where
  "previewState =
     INITIAL_STATE\<lparr>step := PREVIEW, analysis := Some exampleAnalysis,
       generatedAssets := [heroAsset], site := Some exampleSite, gallery := [exampleSite]\<rparr>"

text \<open>A state with assets in the live list and no active site.\<close>

definition noSiteState :: WorkflowState where
  "noSiteState = INITIAL_STATE\<lparr>generatedAssets := [heroAsset]\<rparr>"

section \<open>Splitting and joining\<close>

lemma js_split_comma_example:
  "js_split '','' ''a,b,'' = [''a'', ''b'', '''']"
  by (simp add: js_split_def)

lemma splitOn_nonempty: "splitOn sep acc s \<noteq> []"
  by (induction sep acc s rule: splitOn.induct) auto

lemma js_join_Cons: "ps \<noteq> [] \<Longrightarrow> js_join sep (p # ps) = p @ sep @ js_join sep ps"
  by (cases ps) auto

lemma join_splitOn: "js_join sep (splitOn sep acc s) = acc @ s"
proof (induction sep acc s rule: splitOn.induct)
  case (1 sep acc)
  then show ?case by simp
next
  case (2 sep acc c cs)
  show ?case
  proof (cases "sep \<noteq> [] \<and> prefix sep (c # cs)")
    case True
    then have split: "splitOn sep acc (c # cs) = acc # splitOn sep [] (drop (length sep) (c # cs))"
      by simp
    from True have "sep @ drop (length sep) (c # cs) = c # cs"
      by (metis append_eq_conv_conj prefix_def)
    moreover from True 2 have "js_join sep (splitOn sep [] (drop (length sep) (c # cs))) = drop (length sep) (c # cs)"
      by simp
    ultimately show ?thesis
      unfolding split by (simp add: js_join_Cons splitOn_nonempty)
  next
    case False
    with 2 show ?thesis by auto
  qed
qed

lemma join_chars: "js_join [] (map (\<lambda>c. [c]) s) = s"
proof (induction s)
  case Nil
  then show ?case by simp
next
  case (Cons c cs)
  then show ?case by (cases cs) auto
qed

lemma join_split: "js_join sep (js_split sep s) = s"
  by (simp add: js_split_def join_splitOn join_chars)

lemma splitOn_fresh: "sep \<noteq> [] \<Longrightarrow> set s \<inter> set sep = {} \<Longrightarrow> splitOn sep acc s = [acc @ s]"
proof (induction s arbitrary: acc)
  case Nil
  then show ?case by simp
next
  case (Cons c cs)
  have "\<not> prefix sep (c # cs)"
  proof
    assume "prefix sep (c # cs)"
    with Cons.prems(1) have "hd sep = c" by (cases sep) auto
    with Cons.prems show False by (cases sep) auto
  qed
  with Cons show ?case by auto
qed

lemma splitOn_fresh_piece:
  "sep \<noteq> [] \<Longrightarrow> set p \<inter> set sep = {} \<Longrightarrow>
   splitOn sep acc (p @ sep @ rest) = (acc @ p) # splitOn sep [] rest"
proof (induction p arbitrary: acc)
  case Nil
  then obtain d ds where sep: "sep = d # ds" by (cases sep) auto
  have "splitOn sep acc (sep @ rest) = acc # splitOn sep [] (drop (length sep) (sep @ rest))"
    unfolding sep by simp
  then show ?case by simp
next
  case (Cons c cs)
  have "\<not> prefix sep (c # cs @ sep @ rest)"
  proof
    assume "prefix sep (c # cs @ sep @ rest)"
    with Cons.prems(1) have "hd sep = c" by (cases sep) auto
    with Cons.prems show False by (cases sep) auto
  qed
  with Cons show ?case by auto
qed

lemma split_join_fresh:
  "sep \<noteq> [] \<Longrightarrow> ps \<noteq> [] \<Longrightarrow> \<forall>p\<in>set ps. set p \<inter> set sep = {} \<Longrightarrow>
   js_split sep (js_join sep ps) = ps"
proof (induction sep ps rule: js_join.induct)
  case (1 sep)
  then show ?case by simp
next
  case (2 sep p)
  then show ?case by (simp add: js_split_def splitOn_fresh)
next
  case (3 sep p q ps)
  then have "js_split sep (js_join sep (q # ps)) = q # ps" by simp
  with 3 show ?case
    by (simp add: js_split_def splitOn_fresh_piece)
qed

lemma set_splitOn: "p \<in> set (splitOn sep acc s) \<Longrightarrow> set p \<subseteq> set acc \<union> set s"
proof (induction sep acc s arbitrary: p rule: splitOn.induct)
  case (1 sep acc)
  then show ?case by simp
next
  case (2 sep acc c cs)
  show ?case
  proof (cases "sep \<noteq> [] \<and> prefix sep (c # cs)")
    case True
    with 2 have "p = acc \<or> set p \<subseteq> set (drop (length sep) (c # cs))"
      by fastforce
    moreover have "set (drop (length sep) (c # cs)) \<subseteq> set (c # cs)"
      by (rule set_drop_subset)
    ultimately show ?thesis by auto
  next
    case False
    with 2 have "set p \<subseteq> set (acc @ [c]) \<union> set cs" by auto
    then show ?thesis by auto
  qed
qed

lemma set_js_split: "p \<in> set (js_split sep s) \<Longrightarrow> set p \<subseteq> set s"
proof (cases "sep = []")
  case True
  assume "p \<in> set (js_split sep s)"
  with True show ?thesis by (auto simp: js_split_def)
next
  case False
  assume "p \<in> set (js_split sep s)"
  with False have "p \<in> set (splitOn sep [] s)" by (simp add: js_split_def)
  from set_splitOn [OF this] show ?thesis by simp
qed

lemma replace_roundtrip:
  assumes "u2 \<noteq> []" and "set u2 \<inter> set s = {}"
  shows "js_join u1 (js_split u2 (js_join u2 (js_split u1 s))) = s"
proof (cases "js_split u1 s = []")
  case True
  then have "s = []" using join_split [of u1 s] by simp
  with True assms show ?thesis by (simp add: js_split_def)
next
  case False
  have "\<forall>p\<in>set (js_split u1 s). set p \<inter> set u2 = {}"
    using assms(2) set_js_split by fastforce
  with False assms(1) have "js_split u2 (js_join u2 (js_split u1 s)) = js_split u1 s"
    by (simp add: split_join_fresh)
  then show ?thesis by (simp add: join_split)
qed


text \<open>No piece of the scan contains the separator.\<close>

lemma splitOn_pieces:
  "sep \<noteq> [] \<Longrightarrow> \<forall>ys zs. acc = ys @ zs \<and> zs \<noteq> [] \<longrightarrow> \<not> prefix sep (zs @ s) \<Longrightarrow>
   p \<in> set (splitOn sep acc s) \<Longrightarrow> \<not> sublist sep p"
proof (induction sep acc s arbitrary: p rule: splitOn.induct)
  case (1 sep acc)
  then have p: "p = acc" by simp
  show ?case
  proof
    assume "sublist sep p"
    then obtain ys zs where "acc = ys @ sep @ zs" unfolding p sublist_def by blast
    with 1(1) 1(2) show False by (metis append_is_Nil_conv prefixI append.assoc)
  qed
next
  case (2 sep acc c cs)
  have emit: "\<not> sublist sep acc"
  proof
    assume "sublist sep acc"
    then obtain ys zs where "acc = ys @ sep @ zs" unfolding sublist_def by blast
    with 2(3) 2(4) show False by (metis append_is_Nil_conv prefixI append.assoc)
  qed
  show ?case
  proof (cases "sep \<noteq> [] \<and> prefix sep (c # cs)")
    case True
    with 2(5) have "p = acc \<or> p \<in> set (splitOn sep [] (drop (length sep) (c # cs)))"
      by simp
    then show ?thesis
    proof
      assume "p = acc"
      with emit show ?thesis by simp
    next
      assume "p \<in> set (splitOn sep [] (drop (length sep) (c # cs)))"
      with 2(1) [OF True 2(3)] show ?thesis by simp
    qed
  next
    case False
    with 2(5) have mem: "p \<in> set (splitOn sep (acc @ [c]) cs)" by auto
    have inv: "\<forall>ys zs. acc @ [c] = ys @ zs \<and> zs \<noteq> [] \<longrightarrow> \<not> prefix sep (zs @ cs)"
    proof (intro allI impI)
      fix ys zs
      assume a: "acc @ [c] = ys @ zs \<and> zs \<noteq> []"
      show "\<not> prefix sep (zs @ cs)"
      proof (cases "zs = [c]")
        case True
        with False 2(3) show ?thesis by simp
      next
        case nz: False
        from a obtain zs' where zs: "zs = zs' @ [c]"
          by (metis append_butlast_last_id last_appendR last_snoc)
        with nz have "zs' \<noteq> []" by auto
        moreover from a zs have "acc = ys @ zs'" by simp
        ultimately have "\<not> prefix sep (zs' @ c # cs)" using 2(4) by blast
        with zs show ?thesis by simp
      qed
    qed
    from 2(2) [OF False 2(3) inv mem] show ?thesis .
  qed
qed

lemma js_split_pieces: "sep \<noteq> [] \<Longrightarrow> p \<in> set (js_split sep s) \<Longrightarrow> \<not> sublist sep p"
  using splitOn_pieces [of sep "[]" s p] by (simp add: js_split_def)

lemma fresh_part_empty: "set xs \<inter> set b = {} \<Longrightarrow> set ys \<subseteq> set xs \<Longrightarrow> set ys \<subseteq> set b \<Longrightarrow> ys = []"
  by (cases ys) auto

lemma sublist_fresh_gap:
  assumes "sublist xs (a @ b @ c)" and "b \<noteq> []" and "set xs \<inter> set b = {}"
  shows "sublist xs a \<or> sublist xs c"
proof -
  from assms(1) consider
      (left) "sublist xs a"
    | (right) "sublist xs (b @ c)"
    | (across) xs1 xs2 where "xs = xs1 @ xs2" "suffix xs1 a" "prefix xs2 (b @ c)"
    unfolding sublist_append [of xs a] by blast
  then show ?thesis
  proof cases
    case left
    then show ?thesis ..
  next
    case right
    then consider
        (inb) "sublist xs b"
      | (inc) "sublist xs c"
      | (bc) xs1 xs2 where "xs = xs1 @ xs2" "suffix xs1 b" "prefix xs2 c"
      unfolding sublist_append [of xs b] by blast
    then show ?thesis
    proof cases
      case inb
      then have "set xs \<subseteq> set b" by (rule set_mono_sublist)
      with assms(3) have "xs = []" by (intro fresh_part_empty [of xs b]) auto
      then show ?thesis by simp
    next
      case inc
      then show ?thesis ..
    next
      case bc
      from bc(2) have "set xs1 \<subseteq> set b" by (simp add: set_mono_suffix)
      moreover from bc(1) have "set xs1 \<subseteq> set xs" by simp
      ultimately have "xs1 = []" using assms(3) by (intro fresh_part_empty [of xs b])
      with bc show ?thesis by simp
    qed
  next
    case across
    from across(3) consider
        (short) "prefix xs2 b"
      | (long) us where "xs2 = b @ us"
      unfolding prefix_append by blast
    then show ?thesis
    proof cases
      case short
      then have "set xs2 \<subseteq> set b" by (simp add: set_mono_prefix)
      moreover from across(1) have "set xs2 \<subseteq> set xs" by simp
      ultimately have "xs2 = []" using assms(3) by (intro fresh_part_empty [of xs b])
      with across have "suffix xs a" by simp
      then show ?thesis by (auto simp: suffix_def)
    next
      case long
      with across(1) have "set b \<subseteq> set xs" by auto
      with assms(2,3) have False by (cases b) auto
      then show ?thesis ..
    qed
  qed
qed

lemma sublist_join_fresh:
  "sep \<noteq> [] \<Longrightarrow> set xs \<inter> set sep = {} \<Longrightarrow> sublist xs (js_join sep ps) \<Longrightarrow>
   xs = [] \<or> (\<exists>p\<in>set ps. sublist xs p)"
proof (induction sep ps rule: js_join.induct)
  case (1 sep)
  then show ?case by simp
next
  case (2 sep p)
  then show ?case by simp
next
  case (3 sep p q ps)
  from 3(4) have "sublist xs (p @ sep @ js_join sep (q # ps))" by simp
  from sublist_fresh_gap [OF this 3(2) 3(3)]
  show ?case
  proof
    assume "sublist xs p"
    then show ?thesis by simp
  next
    assume "sublist xs (js_join sep (q # ps))"
    with 3 show ?thesis by auto
  qed
qed

lemma replace_removes:
  assumes "u1 \<noteq> []" and "u2 \<noteq> []" and "set u1 \<inter> set u2 = {}"
  shows "\<not> sublist u1 (js_join u2 (js_split u1 s))"
proof
  assume "sublist u1 (js_join u2 (js_split u1 s))"
  from sublist_join_fresh [OF assms(2) assms(3) this] assms(1)
  obtain p where "p \<in> set (js_split u1 s)" "sublist u1 p" by blast
  with js_split_pieces [OF assms(1)] show False by blast
qed

section \<open>Logging\<close>

lemma addLog_fields [simp]:
  "step (addLog env msg s) = step s"
  "uploadedImages (addLog env msg s) = uploadedImages s"
  "analysis (addLog env msg s) = analysis s"
  "research (addLog env msg s) = research s"
  "researchOverrides (addLog env msg s) = researchOverrides s"
  "generatedAssets (addLog env msg s) = generatedAssets s"
  "site (addLog env msg s) = site s"
  "previousSite (addLog env msg s) = previousSite s"
  "isProcessing (addLog env msg s) = isProcessing s"
  "deployment (addLog env msg s) = deployment s"
  "error (addLog env msg s) = error s"
  "gallery (addLog env msg s) = gallery s"
  "selectedRecipe (addLog env msg s) = selectedRecipe s"
  by (simp_all add: addLog_def)

lemma addLog_logs:
  "logs (addLog env msg s) = logs s @ [''['' @ clock env (length (logs s)) @ ''] '' @ msg]"
  by (simp add: addLog_def)

section \<open>Reset\<close>

lemma reset_is_initial: "reset s = INITIAL_STATE"
  by (simp add: reset_def)

text \<open>
  C2. The claim: \<^verbatim>\<open>reset()\<close> returns every field to its initial value and leaves the
  gallery as it was. The handler is \<^verbatim>\<open>setState(INITIAL_STATE)\<close>: the whole state,
  gallery included, becomes the constant (\<open>reset_is_initial\<close>), where the session's first
  state is built as \<^verbatim>\<open>{ ...INITIAL_STATE, gallery: ... }\<close>. From a state whose gallery
  holds one site, the gallery after the reset is the constant's, so the site is gone.
\<close>

theorem reset_discards_gallery:
  "gallery previewState = [exampleSite] \<and> gallery (reset previewState) = []
   \<and> gallery (reset previewState) \<noteq> gallery previewState"
  by (simp add: reset_def previewState_def INITIAL_STATE_def)

section \<open>Confirming the refinement\<close>

text \<open>
  C7. \<^verbatim>\<open>handleRefineryConfirm(overrides)\<close> hands \<^verbatim>\<open>runAssetPhase\<close> the spread of the
  stored research and the overrides, and the spread is shallow: for each of the eight
  top-level keys, a key the overrides carry takes the overrides' property, and a key they
  lack keeps the base's. (With no stored research the spread is the overrides alone.)
\<close>

theorem confirmRefinement_shallow_merge:
  "handleRefineryConfirm env rendered overrides prev =
     runAssetPhase env rendered (spread (research rendered) overrides)
       (addLog env ''Refinery settings locked. Casting production assets...''
          (prev\<lparr>researchOverrides := Some overrides, step := GENERATION, isProcessing := True\<rparr>))
   \<and> spread None overrides = overrides
   \<and> trends (spread (Some base) overrides) =
       (if trends overrides = Absent then trends base else trends overrides)
   \<and> competitors (spread (Some base) overrides) =
       (if competitors overrides = Absent then competitors base else competitors overrides)
   \<and> rr_keywords (spread (Some base) overrides) =
       (if rr_keywords overrides = Absent then rr_keywords base else rr_keywords overrides)
   \<and> recommendedDesignSystem (spread (Some base) overrides) =
       (if recommendedDesignSystem overrides = Absent then recommendedDesignSystem base
        else recommendedDesignSystem overrides)
   \<and> sources (spread (Some base) overrides) =
       (if sources overrides = Absent then sources base else sources overrides)
   \<and> marketContent (spread (Some base) overrides) =
       (if marketContent overrides = Absent then marketContent base
        else marketContent overrides)
   \<and> paymentConfig (spread (Some base) overrides) =
       (if paymentConfig overrides = Absent then paymentConfig base
        else paymentConfig overrides)
   \<and> products (spread (Some base) overrides) =
       (if products overrides = Absent then products base else products overrides)"
proof -
  have over_eq: "over b v = (if v = Absent then b else v)" for b v :: "'a member"
    by (cases v) simp_all
  show ?thesis
    by (simp add: handleRefineryConfirm_def spread_def over_eq)
qed

text \<open>Overrides with the key \<^verbatim>\<open>trends\<close> alone: the merged object has their \<^verbatim>\<open>trends\<close>
  and the base's \<^verbatim>\<open>competitors\<close> and \<^verbatim>\<open>marketContent\<close>.\<close>

theorem confirmRefinement_shallow_merge_witness:
  "trends (spread (Some exampleResearch) exampleOverrides) = Value [''bold'']
   \<and> competitors (spread (Some exampleResearch) exampleOverrides) = competitors exampleResearch
   \<and> marketContent (spread (Some exampleResearch) exampleOverrides) = Value exampleMarket"
  using confirmRefinement_shallow_merge
          [of exampleEnv editorState exampleOverrides editorState exampleResearch]
  by (simp add: exampleOverrides_def exampleResearch_def)

section \<open>Hot swap without an active site\<close>

text \<open>
  C10, as amended. With no active site the updater of \<^verbatim>\<open>handleAssetUpdated\<close> returns the
  state it was given, whether or not \<open>assetId\<close> names an entry of \<^verbatim>\<open>generatedAssets\<close>;
  the handler then calls \<^verbatim>\<open>addLog\<close> as it always does, so the state after the handler is
  the state before with one more log line and nothing else changed.
\<close>

theorem hotSwap_without_site:
  "site prev = None \<Longrightarrow>
   assetUpdate assetId newUrl prev = prev
   \<and> handleAssetUpdated env assetId newUrl prev =
       prev\<lparr>logs := logs prev @
         [''['' @ clock env (length (logs prev)) @ ''] Asset '' @ assetId @ '' hot-swapped.'']\<rparr>"
  by (simp add: handleAssetUpdated_def assetUpdate_def addLog_def)

theorem hotSwap_without_site_witness:
  "site noSiteState = None
   \<and> find (\<lambda>a. asset_id a = ''a1'') (generatedAssets noSiteState) = Some heroAsset
   \<and> assetUpdate ''a1'' ''new.png'' noSiteState = noSiteState
   \<and> generatedAssets (handleAssetUpdated exampleEnv ''a1'' ''new.png'' noSiteState) = [heroAsset]"
proof -
  have none: "site noSiteState = None"
    by (simp add: noSiteState_def INITIAL_STATE_def)
  have found: "find (\<lambda>a. asset_id a = ''a1'') (generatedAssets noSiteState) = Some heroAsset"
    by (simp add: noSiteState_def heroAsset_def)
  from hotSwap_without_site [OF none, of "''a1''" "''new.png''" exampleEnv] none found
  show ?thesis by (simp add: noSiteState_def)
qed

text \<open>The claim as stated, "completely unchanged", fails on the log.\<close>

theorem hotSwap_without_site_logs_counterexample:
  "handleAssetUpdated exampleEnv ''a1'' ''new.png'' noSiteState \<noteq> noSiteState"
proof
  assume "handleAssetUpdated exampleEnv ''a1'' ''new.png'' noSiteState = noSiteState"
  then have "logs (handleAssetUpdated exampleEnv ''a1'' ''new.png'' noSiteState) = logs noSiteState"
    by simp
  then show False
    by (simp add: handleAssetUpdated_def addLog_logs assetUpdate_def noSiteState_def
          INITIAL_STATE_def)
qed

end
